theory Spec2Isabelle
  imports Complex_Main "HOL-Library.Word"
begin

section \<open>Motion-command gateway of the Grbl port (motion\_control.c)\<close>

text \<open>
  The development embeds the functions \<^verbatim>\<open>mc_line\<close>, \<^verbatim>\<open>mc_arc\<close>, \<^verbatim>\<open>mc_dwell\<close>,
  \<^verbatim>\<open>mc_probe_cycle\<close> and \<^verbatim>\<open>mc_reset\<close> of \<^verbatim>\<open>motion_control.c\<close>. The process-wide
  variables (\<^verbatim>\<open>sys\<close>, \<^verbatim>\<open>sys_rt_exec_state\<close>, \<^verbatim>\<open>sys_rt_exec_alarm\<close>, \<^verbatim>\<open>sys_probe_state\<close>,
  \<^verbatim>\<open>settings\<close>, the planner ring) form one record that every function takes and
  returns. Commands issued to the collaborating modules (planner, stepper, spindle,
  coolant, alarm channel) are appended to a log kept in that record, so that
  "how many writes" and "which calls" are properties of the final state.
\<close>

subsection \<open>Enumerations of the header files\<close>

text \<open>
  The header files are not part of the sources at hand. The enumerations below carry
  the names used in \<^verbatim>\<open>motion_control.c\<close>; bit masks are modelled as sets of these
  names, so \<^verbatim>\<open>bit_istrue(x, F)\<close> is \<open>F \<in> x\<close> and \<^verbatim>\<open>bit_false(x, F)\<close> is \<open>x - {F}\<close>.
  The machine state is exactly one of the listed states.
\<close>

datatype machine_state =
    STATE_IDLE | STATE_ALARM | STATE_CHECK_MODE | STATE_HOMING | STATE_CYCLE
  | STATE_HOLD | STATE_JOG | STATE_SAFETY_DOOR | STATE_SLEEP

datatype exec_flag =
    EXEC_STATUS_REPORT | EXEC_CYCLE_START | EXEC_FEED_HOLD | EXEC_RESET | EXEC_SAFETY_DOOR

datatype alarm_code =
    EXEC_ALARM_HARD_LIMIT | EXEC_ALARM_SOFT_LIMIT | EXEC_ALARM_ABORT_CYCLE
  | EXEC_ALARM_PROBE_FAIL_INITIAL | EXEC_ALARM_PROBE_FAIL_CONTACT
  | EXEC_ALARM_HOMING_FAIL_RESET

datatype step_control_flag =
    STEP_CONTROL_END_MOTION | STEP_CONTROL_EXECUTE_HOLD | STEP_CONTROL_EXECUTE_SYS_MOTION

datatype pl_cond_flag =
    PL_COND_FLAG_RAPID_MOTION | PL_COND_FLAG_SYSTEM_MOTION | PL_COND_FLAG_NO_FEED_OVERRIDE
  | PL_COND_FLAG_INVERSE_TIME | PL_COND_FLAG_SPINDLE_CW | PL_COND_FLAG_SPINDLE_CCW
  | PL_COND_FLAG_COOLANT_FLOOD | PL_COND_FLAG_COOLANT_MIST

datatype settings_flag = BITFLAG_SOFT_LIMIT_ENABLE | BITFLAG_LASER_MODE

datatype probe_monitor = PROBE_OFF | PROBE_ACTIVE

datatype parser_flag = GC_PARSER_PROBE_IS_AWAY | GC_PARSER_PROBE_IS_NO_ERROR

datatype probe_result =
    GC_PROBE_FOUND | GC_PROBE_ABORT | GC_PROBE_FAIL_INIT | GC_PROBE_FAIL_END
  | GC_PROBE_CHECK_MODE

datatype plan_status = PLAN_OK | PLAN_EMPTY_BLOCK

subsection \<open>Plan-line descriptor, command log, asynchronous events\<close>

text \<open>
  \<^verbatim>\<open>plan_line_data_t\<close>: the fields read or written by \<^verbatim>\<open>motion_control.c\<close>. The type
  \<open>'f\<close> stands for the C type \<^verbatim>\<open>float\<close>; nothing is assumed about it.
\<close>

record 'f plan_line_data_t =
  feed_rate :: 'f
  spindle_speed :: 'f
  condition :: "pl_cond_flag set"

text \<open>One entry of the log for each command a collaborating module receives.\<close>

datatype 'f command =
    Planner_submit "'f list" "'f plan_line_data_t"
  | Planner_reset
  | Planner_sync_position
  | Stepper_reset
  | Stepper_go_idle
  | Spindle_write pl_cond_flag 'f
  | Spindle_off
  | Coolant_off
  | Alarm_raised alarm_code
  | Alarm_emitted alarm_code
  | Dwell_delay 'f
  | Probe_report

text \<open>
  What interrupt handlers and the stepper do between two polls of
  \<^verbatim>\<open>protocol_execute_realtime\<close>.
\<close>

datatype 'f rt_event =
    Rt_Reset
  | Rt_Probe_Trigger
  | Rt_Probe_Pin bool
  | Rt_Block_Done
  | Rt_Position "'f list"
  | Rt_State machine_state

subsection \<open>The process-wide state\<close>

record 'f machine =
  sys_state :: machine_state
  sys_abort :: bool
  sys_step_control :: "step_control_flag set"
  sys_probe_succeeded :: bool
  sys_rt_exec_state :: "exec_flag set"
  sys_rt_exec_alarm :: "alarm_code option"
  sys_probe_state :: probe_monitor
  sys_position :: "'f list"
  sys_probe_position :: "'f list"
  settings_flags :: "settings_flag set"
  settings_arc_tolerance :: 'f
  probe_pin :: bool
  probe_invert_mask :: bool
  plan_queue :: "('f list \<times> 'f plan_line_data_t) list"
  plan_position :: "'f list"
  commands :: "'f command list"
  pending :: "'f rt_event list list"

text \<open>
  \<open>sys_rt_exec_alarm\<close> is \<open>None\<close> for the C value 0 (no alarm pending). \<open>plan_queue\<close>
  holds the blocks of the planner ring, oldest first, and \<open>plan_position\<close> the planner's
  own position (the target of the last accepted block). \<open>pending\<close> lists, for each
  future poll of \<^verbatim>\<open>protocol_execute_realtime\<close>, the events that have happened by
  then; after the last entry nothing asynchronous happens any more.
\<close>

subsection \<open>Collaborating modules\<close>

text \<open>
  Modelled from the spec: \<^verbatim>\<open>system_set_exec_state_flag\<close> and \<^verbatim>\<open>system_set_exec_alarm\<close>
  (system module, not among the sources). The first sets a bit of the runtime-exec flag
  word; the second latches the alarm code, and the log records that it was raised.
\<close>

definition system_set_exec_state_flag :: "exec_flag \<Rightarrow> 'f machine \<Rightarrow> 'f machine" where
  "system_set_exec_state_flag flag m = m\<lparr>sys_rt_exec_state := insert flag (sys_rt_exec_state m)\<rparr>"

definition system_set_exec_alarm :: "alarm_code \<Rightarrow> 'f machine \<Rightarrow> 'f machine" where
  "system_set_exec_alarm code m =
     m\<lparr>sys_rt_exec_alarm := Some code, commands := commands m @ [Alarm_raised code]\<rparr>"

text \<open>
  Modelled from the spec: \<^verbatim>\<open>spindle_stop\<close>, \<^verbatim>\<open>coolant_stop\<close>, \<^verbatim>\<open>spindle_sync\<close> (spindle and
  coolant drivers) and \<^verbatim>\<open>st_go_idle\<close>, \<^verbatim>\<open>st_reset\<close> (stepper), none of them among the
  sources. Each is one command to its device. \<^verbatim>\<open>spindle_sync\<close> is the synchronous
  spindle RPM update of section 4.3 of the spec.
\<close>

definition spindle_stop :: "'f machine \<Rightarrow> 'f machine" where
  "spindle_stop m = m\<lparr>commands := commands m @ [Spindle_off]\<rparr>"

definition coolant_stop :: "'f machine \<Rightarrow> 'f machine" where
  "coolant_stop m = m\<lparr>commands := commands m @ [Coolant_off]\<rparr>"

definition spindle_sync :: "pl_cond_flag \<Rightarrow> 'f \<Rightarrow> 'f machine \<Rightarrow> 'f machine" where
  "spindle_sync dir rpm m = m\<lparr>commands := commands m @ [Spindle_write dir rpm]\<rparr>"

definition st_go_idle :: "'f machine \<Rightarrow> 'f machine" where
  "st_go_idle m = m\<lparr>commands := commands m @ [Stepper_go_idle]\<rparr>"

definition st_reset :: "'f machine \<Rightarrow> 'f machine" where
  "st_reset m = m\<lparr>commands := commands m @ [Stepper_reset]\<rparr>"

subsection \<open>\<^verbatim>\<open>mc_reset\<close>\<close>

text \<open>
  \<^verbatim>\<open>sys.state & (STATE_CYCLE | STATE_HOMING | STATE_JOG)\<close> is non-zero exactly when the
  state is one of the three; \<^verbatim>\<open>sys.step_control & (...)\<close> is non-zero exactly when one of
  the two bits is set.
\<close>

definition mc_reset :: "'f machine \<Rightarrow> 'f machine" where
  "mc_reset m =
     (if EXEC_RESET \<notin> sys_rt_exec_state m then
        let m1 = system_set_exec_state_flag EXEC_RESET m;
            m2 = spindle_stop m1;
            m3 = coolant_stop m2
        in if sys_state m3 \<in> {STATE_CYCLE, STATE_HOMING, STATE_JOG}
              \<or> sys_step_control m3 \<inter> {STEP_CONTROL_EXECUTE_HOLD, STEP_CONTROL_EXECUTE_SYS_MOTION} \<noteq> {}
           then
             let m4 = (if sys_state m3 = STATE_HOMING
                       then (if sys_rt_exec_alarm m3 = None
                             then system_set_exec_alarm EXEC_ALARM_HOMING_FAIL_RESET m3
                             else m3)
                       else system_set_exec_alarm EXEC_ALARM_ABORT_CYCLE m3)
             in st_go_idle m4
           else m3
      else m)"

subsection \<open>Build configuration and C arithmetic\<close>

text \<open>
  \<open>'f\<close> is the C type \<^verbatim>\<open>float\<close> and \<open>'d\<close> the C type \<^verbatim>\<open>double\<close>. The operators
  \<open>+\<close>, \<open>-\<close>, \<open>*\<close>, \<open>/\<close> and \<open>\<le>\<close> on them are the machine operations of the respective
  precision; no law of arithmetic is assumed for them. The record collects what else the
  code takes from the C library, from the usual arithmetic conversions, and from
  \<^verbatim>\<open>config.h\<close> and the other modules, none of which is among the sources:
  conversions between the two precisions and from integers, \<^verbatim>\<open>double\<close> literals, the
  library functions, the conversion to \<^verbatim>\<open>uint16_t\<close>, the compile-time constants, the
  soft-limit bounds test of the limits module, and the number of polls a dwell of a given
  length makes.
\<close>

record ('f, 'd) platform =
  to_double :: "'f \<Rightarrow> 'd"
  to_float :: "'d \<Rightarrow> 'f"
  dconst :: "rat \<Rightarrow> 'd"
  int_to_float :: "int \<Rightarrow> 'f"
  atan2f :: "'f \<Rightarrow> 'f \<Rightarrow> 'f"
  sqrtf :: "'f \<Rightarrow> 'f"
  cosf :: "'f \<Rightarrow> 'f"
  sinf :: "'f \<Rightarrow> 'f"
  fabs :: "'d \<Rightarrow> 'd"
  floor_double :: "'d \<Rightarrow> 'd"
  to_uint16 :: "'d \<Rightarrow> 16 word"
  ARC_ANGULAR_TRAVEL_EPSILON :: 'd
  N_ARC_CORRECTION :: nat
  BLOCK_BUFFER_SIZE :: nat
  MESSAGE_PROBE_COORDINATES :: bool
  soft_limit_exceeded :: "'f list \<Rightarrow> bool"
  dwell_polls :: "'f \<Rightarrow> nat"

text \<open>\<^verbatim>\<open>#define M_PI 3.1415926\<close>\<close>

definition M_PI :: "('f, 'd) platform \<Rightarrow> 'd" where
  "M_PI P = dconst P (31415926 / 10000000)"

subsection \<open>Realtime executor hook\<close>

text \<open>
  The effect of one asynchronous event. A reset request runs \<^verbatim>\<open>mc_reset\<close> at interrupt
  level (the comment above \<^verbatim>\<open>mc_reset\<close>). A probe trigger, seen while the monitor is
  active, switches the monitor off and snapshots the machine position (spec 4.7).
  A finished block leaves the planner ring.
\<close>

fun apply_rt_event :: "'f rt_event \<Rightarrow> 'f machine \<Rightarrow> 'f machine" where
  "apply_rt_event Rt_Reset m = mc_reset m"
| "apply_rt_event Rt_Probe_Trigger m =
     (if sys_probe_state m = PROBE_ACTIVE
      then m\<lparr>sys_probe_state := PROBE_OFF, sys_probe_position := sys_position m\<rparr>
      else m)"
| "apply_rt_event (Rt_Probe_Pin level) m = m\<lparr>probe_pin := level\<rparr>"
| "apply_rt_event Rt_Block_Done m =
     (case plan_queue m of [] \<Rightarrow> m | b # bs \<Rightarrow> m\<lparr>plan_queue := bs\<rparr>)"
| "apply_rt_event (Rt_Position p) m = m\<lparr>sys_position := p\<rparr>"
| "apply_rt_event (Rt_State s) m = m\<lparr>sys_state := s\<rparr>"

text \<open>
  Modelled from the spec: \<^verbatim>\<open>protocol_execute_realtime\<close> (protocol module, not among the
  sources), section 4.1: it emits a queued alarm, which puts the machine into the ALARM
  state (section 7), and applies a pending reset by setting \<^verbatim>\<open>sys.abort\<close>. The state
  transitions it services are events of the poll.
\<close>

definition rt_drain :: "'f machine \<Rightarrow> 'f machine" where
  "rt_drain m =
     (let m1 = (case sys_rt_exec_alarm m of
                  None \<Rightarrow> m
                | Some a \<Rightarrow> m\<lparr>sys_state := STATE_ALARM, sys_rt_exec_alarm := None,
                               commands := commands m @ [Alarm_emitted a]\<rparr>)
      in if EXEC_RESET \<in> sys_rt_exec_state m1 then m1\<lparr>sys_abort := True\<rparr> else m1)"

definition protocol_execute_realtime :: "'f machine \<Rightarrow> 'f machine" where
  "protocol_execute_realtime m =
     (case pending m of
        [] \<Rightarrow> rt_drain m
      | evs # rest \<Rightarrow> (rt_drain (fold apply_rt_event evs m))\<lparr>pending := rest\<rparr>)"

text \<open>
  Modelled from the spec: \<^verbatim>\<open>protocol_auto_cycle_start\<close> requests a cycle start
  (section 4.3, step 3).
\<close>

definition protocol_auto_cycle_start :: "'f machine \<Rightarrow> 'f machine" where
  "protocol_auto_cycle_start m = system_set_exec_state_flag EXEC_CYCLE_START m"

text \<open>
  Modelled from the spec: \<^verbatim>\<open>protocol_buffer_synchronize\<close> (section 4.2) polls the hook
  until the planner is empty or an abort is seen. When no event is left and the ring is
  still not empty after a poll, further polls change nothing and the call never returns:
  the value is \<open>None\<close>.
\<close>

function protocol_buffer_synchronize :: "'f machine \<Rightarrow> 'f machine option" where
  "protocol_buffer_synchronize m =
     (let m1 = protocol_execute_realtime m in
      if sys_abort m1 then Some m1
      else if plan_queue m1 = [] then Some m1
      else if pending m = [] then None
      else protocol_buffer_synchronize m1)"
  by pat_completeness auto
termination
  by (relation "measure (\<lambda>m. length (pending m))")
     (auto simp: protocol_execute_realtime_def split: list.splits)

subsection \<open>Planner, limits and probe modules\<close>

text \<open>
  Modelled from the spec: the planner interface of section 4.2 (planner module, not
  among the sources). A segment whose target is the planner's position has zero length:
  it is discarded and reported as an empty block. Every call is logged. \<^verbatim>\<open>plan_reset\<close>
  wipes the ring and zeroes the planner position (comment at the call in
  \<^verbatim>\<open>mc_probe_cycle\<close>); \<^verbatim>\<open>plan_sync_position\<close> reloads it from the machine position.
\<close>

definition plan_check_full_buffer :: "('f, 'd) platform \<Rightarrow> 'f machine \<Rightarrow> bool" where
  "plan_check_full_buffer P m = (BLOCK_BUFFER_SIZE P \<le> length (plan_queue m))"

definition plan_buffer_line ::
  "'f list \<Rightarrow> 'f plan_line_data_t \<Rightarrow> 'f machine \<Rightarrow> plan_status \<times> 'f machine" where
  "plan_buffer_line target pl_data m =
     (let m1 = m\<lparr>commands := commands m @ [Planner_submit target pl_data]\<rparr>
      in if target = plan_position m1 then (PLAN_EMPTY_BLOCK, m1)
         else (PLAN_OK, m1\<lparr>plan_queue := plan_queue m1 @ [(target, pl_data)],
                            plan_position := target\<rparr>))"

definition plan_reset :: "('f::zero) machine \<Rightarrow> 'f machine" where
  "plan_reset m =
     m\<lparr>plan_queue := [], plan_position := map (\<lambda>x. 0) (plan_position m),
       commands := commands m @ [Planner_reset]\<rparr>"

definition plan_sync_position :: "'f machine \<Rightarrow> 'f machine" where
  "plan_sync_position m =
     m\<lparr>plan_position := sys_position m, commands := commands m @ [Planner_sync_position]\<rparr>"

text \<open>
  Modelled from the spec: \<^verbatim>\<open>limits_soft_check\<close> (limits module), section 4.3 step 1 and
  scenario S4: on a violation it raises an alarm and aborts.
\<close>

definition limits_soft_check :: "('f, 'd) platform \<Rightarrow> 'f list \<Rightarrow> 'f machine \<Rightarrow> 'f machine" where
  "limits_soft_check P target m =
     (if soft_limit_exceeded P target
      then (system_set_exec_alarm EXEC_ALARM_SOFT_LIMIT m)\<lparr>sys_abort := True\<rparr>
      else m)"

text \<open>
  Modelled from the spec: the probe driver (section 4.7, step 2): \<^verbatim>\<open>is_away\<close> inverts
  the sense in which the pin is read. \<^verbatim>\<open>report_probe_parameters\<close> prints a message.
\<close>

definition probe_configure_invert_mask :: "bool \<Rightarrow> 'f machine \<Rightarrow> 'f machine" where
  "probe_configure_invert_mask is_probe_away m = m\<lparr>probe_invert_mask := is_probe_away\<rparr>"

definition probe_get_state :: "'f machine \<Rightarrow> bool" where
  "probe_get_state m = (probe_pin m \<noteq> probe_invert_mask m)"

definition report_probe_parameters :: "'f machine \<Rightarrow> 'f machine" where
  "report_probe_parameters m = m\<lparr>commands := commands m @ [Probe_report]\<rparr>"

subsection \<open>\<^verbatim>\<open>mc_line\<close>\<close>

text \<open>Lines 76 to 87: the submission and the laser-mode spindle update.\<close>

definition mc_line_submit :: "'f list \<Rightarrow> 'f plan_line_data_t \<Rightarrow> 'f machine \<Rightarrow> 'f machine" where
  "mc_line_submit target pl_data m =
     (case plan_buffer_line target pl_data m of
        (status, m1) \<Rightarrow>
          if status = PLAN_EMPTY_BLOCK then
            (if BITFLAG_LASER_MODE \<in> settings_flags m1 then
               (if PL_COND_FLAG_SPINDLE_CW \<in> condition pl_data
                then spindle_sync PL_COND_FLAG_SPINDLE_CW (spindle_speed pl_data) m1
                else m1)
             else m1)
          else m1)"

text \<open>
  Lines 64 to 87: the back-pressure loop, left by \<^verbatim>\<open>return\<close> on abort and by
  \<^verbatim>\<open>break\<close> into the submission. The loop never ends (\<open>None\<close>) when the ring is
  full and no event is left that could drain it.
\<close>

function mc_line_buffer ::
  "('f, 'd) platform \<Rightarrow> 'f list \<Rightarrow> 'f plan_line_data_t \<Rightarrow> 'f machine \<Rightarrow> 'f machine option" where
  "mc_line_buffer P target pl_data m =
     (let m1 = protocol_execute_realtime m in
      if sys_abort m1 then Some m1
      else if plan_check_full_buffer P m1 then
        (if pending m = [] then None
         else mc_line_buffer P target pl_data (protocol_auto_cycle_start m1))
      else Some (mc_line_submit target pl_data m1))"
  by pat_completeness auto
termination
  by (relation "measure (\<lambda>(P, target, pl_data, m). length (pending m))")
     (auto simp: protocol_execute_realtime_def protocol_auto_cycle_start_def
        system_set_exec_state_flag_def split: list.splits)

text \<open>Lines 37 to 42: the soft-limit check, skipped while jogging.\<close>

definition mc_line_limits :: "('f, 'd) platform \<Rightarrow> 'f list \<Rightarrow> 'f machine \<Rightarrow> 'f machine" where
  "mc_line_limits P target m =
     (if BITFLAG_SOFT_LIMIT_ENABLE \<in> settings_flags m
      then (if sys_state m \<noteq> STATE_JOG then limits_soft_check P target m else m)
      else m)"

definition mc_line ::
  "('f, 'd) platform \<Rightarrow> 'f list \<Rightarrow> 'f plan_line_data_t \<Rightarrow> 'f machine \<Rightarrow> 'f machine option" where
  "mc_line P target pl_data m =
     (let m1 = mc_line_limits P target m
      in if sys_state m1 = STATE_CHECK_MODE then Some m1
         else mc_line_buffer P target pl_data m1)"

subsection \<open>\<^verbatim>\<open>mc_dwell\<close>\<close>

text \<open>
  Modelled from the spec: \<^verbatim>\<open>delay_sec\<close> (section 4.5) blocks for the given time while
  it services the hook, and only a reset cuts it short.
\<close>

fun delay_poll :: "nat \<Rightarrow> 'f machine \<Rightarrow> 'f machine" where
  "delay_poll 0 m = m"
| "delay_poll (Suc n) m = (if sys_abort m then m else delay_poll n (protocol_execute_realtime m))"

definition delay_sec :: "('f, 'd) platform \<Rightarrow> 'f \<Rightarrow> 'f machine \<Rightarrow> 'f machine" where
  "delay_sec P seconds m =
     delay_poll (dwell_polls P seconds) (m\<lparr>commands := commands m @ [Dwell_delay seconds]\<rparr>)"

definition mc_dwell :: "('f, 'd) platform \<Rightarrow> 'f \<Rightarrow> 'f machine \<Rightarrow> 'f machine option" where
  "mc_dwell P seconds m =
     (if sys_state m = STATE_CHECK_MODE then Some m
      else case protocol_buffer_synchronize m of
             None \<Rightarrow> None
           | Some m1 \<Rightarrow> Some (delay_sec P seconds m1))"

subsection \<open>\<^verbatim>\<open>mc_probe_cycle\<close>\<close>

text \<open>Lines 330 to 360: what follows the wait loop.\<close>

definition mc_probe_complete ::
  "('f::zero, 'd) platform \<Rightarrow> bool \<Rightarrow> 'f machine \<Rightarrow> probe_result \<times> 'f machine" where
  "mc_probe_complete P is_no_error m =
     (let m1 = (if sys_probe_state m = PROBE_ACTIVE
                then (if is_no_error then m\<lparr>sys_probe_position := sys_position m\<rparr>
                      else system_set_exec_alarm EXEC_ALARM_PROBE_FAIL_CONTACT m)
                else m\<lparr>sys_probe_succeeded := True\<rparr>);
          m2 = m1\<lparr>sys_probe_state := PROBE_OFF\<rparr>;
          m3 = probe_configure_invert_mask False m2;
          m4 = protocol_execute_realtime m3;
          m5 = st_reset m4;
          m6 = plan_reset m5;
          m7 = plan_sync_position m6;
          m8 = (if MESSAGE_PROBE_COORDINATES P then report_probe_parameters m7 else m7)
      in if sys_probe_succeeded m8 then (GC_PROBE_FOUND, m8) else (GC_PROBE_FAIL_END, m8))"

text \<open>
  Lines 323 to 328 and what follows: the wait for the IDLE state, left by \<^verbatim>\<open>return\<close>
  on abort. With no event left and the state not IDLE after a poll, the loop never ends.
\<close>

function mc_probe_wait ::
  "('f::zero, 'd) platform \<Rightarrow> bool \<Rightarrow> 'f machine \<Rightarrow> (probe_result \<times> 'f machine) option" where
  "mc_probe_wait P is_no_error m =
     (let m1 = protocol_execute_realtime m in
      if sys_abort m1 then Some (GC_PROBE_ABORT, m1)
      else if sys_state m1 \<noteq> STATE_IDLE then
        (if pending m = [] then None else mc_probe_wait P is_no_error m1)
      else Some (mc_probe_complete P is_no_error m1))"
  by pat_completeness auto
termination
  by (relation "measure (\<lambda>(P, is_no_error, m). length (pending m))")
     (auto simp: protocol_execute_realtime_def split: list.splits)

definition mc_probe_cycle ::
  "('f::zero, 'd) platform \<Rightarrow> 'f list \<Rightarrow> 'f plan_line_data_t \<Rightarrow> parser_flag set \<Rightarrow> 'f machine
    \<Rightarrow> (probe_result \<times> 'f machine) option" where
  "mc_probe_cycle P target pl_data parser_flags m =
     (if sys_state m = STATE_CHECK_MODE then Some (GC_PROBE_CHECK_MODE, m)
      else case protocol_buffer_synchronize m of
        None \<Rightarrow> None
      | Some m1 \<Rightarrow>
          if sys_abort m1 then Some (GC_PROBE_ABORT, m1)
          else
            let is_probe_away = (GC_PARSER_PROBE_IS_AWAY \<in> parser_flags);
                is_no_error = (GC_PARSER_PROBE_IS_NO_ERROR \<in> parser_flags);
                m2 = m1\<lparr>sys_probe_succeeded := False\<rparr>;
                m3 = probe_configure_invert_mask is_probe_away m2
            in if probe_get_state m3 then
                 (let m4 = system_set_exec_alarm EXEC_ALARM_PROBE_FAIL_INITIAL m3;
                      m5 = protocol_execute_realtime m4;
                      m6 = probe_configure_invert_mask False m5
                  in Some (GC_PROBE_FAIL_INIT, m6))
               else
                 (case mc_line P target pl_data m3 of
                    None \<Rightarrow> None
                  | Some m4 \<Rightarrow>
                      (let m5 = m4\<lparr>sys_probe_state := PROBE_ACTIVE\<rparr>;
                           m6 = system_set_exec_state_flag EXEC_CYCLE_START m5
                       in mc_probe_wait P is_no_error m6)))"

subsection \<open>\<^verbatim>\<open>mc_arc\<close>\<close>

text \<open>
  Lines 101 to 119: centre, radius vectors, the angular travel and its correction per
  direction. The comparison with the \<^verbatim>\<open>double\<close> constant and the update by
  \<^verbatim>\<open>2 * M_PI\<close> are carried out in \<^verbatim>\<open>double\<close>; the assignment converts back to
  \<^verbatim>\<open>float\<close>.
\<close>

definition arc_angular_travel ::
  "('f::{plus,minus,times,uminus}, 'd::{plus,minus,times,uminus,ord}) platform
    \<Rightarrow> 'f list \<Rightarrow> 'f list \<Rightarrow> 'f list \<Rightarrow> nat \<Rightarrow> nat \<Rightarrow> bool \<Rightarrow> 'f" where
  "arc_angular_travel P target position offset axis_0 axis_1 is_clockwise_arc =
     (let center0 = position ! axis_0 + offset ! axis_0;
          center1 = position ! axis_1 + offset ! axis_1;
          r_axis0 = - (offset ! axis_0);
          r_axis1 = - (offset ! axis_1);
          rt_axis0 = target ! axis_0 - center0;
          rt_axis1 = target ! axis_1 - center1;
          angular_travel = atan2f P (r_axis0 * rt_axis1 - r_axis1 * rt_axis0)
                                    (r_axis0 * rt_axis0 + r_axis1 * rt_axis1)
      in if is_clockwise_arc then
           (if - ARC_ANGULAR_TRAVEL_EPSILON P \<le> to_double P angular_travel
            then to_float P (to_double P angular_travel - dconst P 2 * M_PI P)
            else angular_travel)
         else
           (if to_double P angular_travel \<le> ARC_ANGULAR_TRAVEL_EPSILON P
            then to_float P (to_double P angular_travel + dconst P 2 * M_PI P)
            else angular_travel))"

text \<open>
  Lines 125 and 126. The numerator is a \<^verbatim>\<open>double\<close> expression (\<^verbatim>\<open>0.5\<close> is a
  \<^verbatim>\<open>double\<close> literal), the argument of \<^verbatim>\<open>sqrtf\<close> a \<^verbatim>\<open>float\<close> expression; the quotient
  and \<^verbatim>\<open>floor\<close> are \<^verbatim>\<open>double\<close>, and the result is converted to \<^verbatim>\<open>uint16_t\<close>.
\<close>

definition arc_segments ::
  "('f::{minus,times}, 'd::{times,inverse}) platform \<Rightarrow> 'f \<Rightarrow> 'f \<Rightarrow> 'f \<Rightarrow> 16 word" where
  "arc_segments P arc_tolerance angular_travel radius =
     to_uint16 P
       (floor_double P
          (fabs P (dconst P (1 / 2) * to_double P angular_travel * to_double P radius)
           / to_double P (sqrtf P (arc_tolerance * (int_to_float P 2 * radius - arc_tolerance)))))"

text \<open>The local variables of \<^verbatim>\<open>mc_arc\<close> that the loop reads but does not change.\<close>

record 'f arc_locals =
  arc_offset :: "'f list"
  arc_axis_0 :: nat
  arc_axis_1 :: nat
  arc_axis_linear :: nat
  center_axis0 :: 'f
  center_axis1 :: 'f
  segments :: nat
  theta_per_segment :: 'f
  linear_per_segment :: 'f
  sin_T :: 'f
  cos_T :: 'f

text \<open>
  Lines 181 to 197: the new radius vector and correction counter of iteration \<open>i\<close>.
\<close>

definition arc_rotate ::
  "('f::{plus,minus,times,uminus}, 'd) platform \<Rightarrow> 'f arc_locals \<Rightarrow> nat \<Rightarrow> nat \<Rightarrow> 'f \<Rightarrow> 'f
    \<Rightarrow> nat \<times> 'f \<times> 'f" where
  "arc_rotate P L i count r_axis0 r_axis1 =
     (if count < N_ARC_CORRECTION P then
        (let r_axisi = r_axis0 * sin_T L + r_axis1 * cos_T L;
             r_axis0' = r_axis0 * cos_T L - r_axis1 * sin_T L
         in (count + 1, r_axis0', r_axisi))
      else
        (let cos_Ti = cosf P (int_to_float P (int i) * theta_per_segment L);
             sin_Ti = sinf P (int_to_float P (int i) * theta_per_segment L)
         in (0,
             (- (arc_offset L ! arc_axis_0 L)) * cos_Ti + (arc_offset L ! arc_axis_1 L) * sin_Ti,
             (- (arc_offset L ! arc_axis_0 L)) * sin_Ti - (arc_offset L ! arc_axis_1 L) * cos_Ti)))"

text \<open>Lines 200 to 202: the three writes into the caller's position array.\<close>

definition arc_advance :: "('f::plus) arc_locals \<Rightarrow> 'f \<Rightarrow> 'f \<Rightarrow> 'f list \<Rightarrow> 'f list" where
  "arc_advance L r_axis0 r_axis1 position =
     (let p1 = position[arc_axis_0 L := center_axis0 L + r_axis0];
          p2 = p1[arc_axis_1 L := center_axis1 L + r_axis1]
      in p2[arc_axis_linear L := p2 ! arc_axis_linear L + linear_per_segment L])"

text \<open>
  Lines 178 to 209: the loop \<^verbatim>\<open>for (i = 1; i < segments; i++)\<close>. The result tells whether
  the loop was left by \<^verbatim>\<open>return\<close> on abort (\<open>True\<close>), and carries the position array
  and the machine.
\<close>

function mc_arc_loop ::
  "('f::{plus,minus,times,uminus}, 'd) platform \<Rightarrow> 'f arc_locals \<Rightarrow> 'f plan_line_data_t
    \<Rightarrow> nat \<Rightarrow> nat \<Rightarrow> 'f \<Rightarrow> 'f \<Rightarrow> 'f list \<Rightarrow> 'f machine
    \<Rightarrow> (bool \<times> 'f list \<times> 'f machine) option" where
  "mc_arc_loop P L pl_data i count r_axis0 r_axis1 position m =
     (if i < segments L then
        (case arc_rotate P L i count r_axis0 r_axis1 of
           (count', r_axis0', r_axis1') \<Rightarrow>
             (let position' = arc_advance L r_axis0' r_axis1' position
              in case mc_line P position' pl_data m of
                   None \<Rightarrow> None
                 | Some m' \<Rightarrow>
                     if sys_abort m' then Some (True, position', m')
                     else mc_arc_loop P L pl_data (i + 1) count' r_axis0' r_axis1' position' m'))
      else Some (False, position, m))"
  by pat_completeness auto
termination
  by (relation "measure (\<lambda>(P, L, pl_data, i, count, r_axis0, r_axis1, position, m). segments L - i)")
     auto

text \<open>Lines 133 to 137: the feed-rate adjustment, written through \<^verbatim>\<open>pl_data\<close>.\<close>

definition arc_feed_adjust ::
  "('f::times, 'd) platform \<Rightarrow> 16 word \<Rightarrow> 'f plan_line_data_t \<Rightarrow> 'f plan_line_data_t" where
  "arc_feed_adjust P segs pl_data =
     (if PL_COND_FLAG_INVERSE_TIME \<in> condition pl_data
      then pl_data\<lparr>feed_rate := feed_rate pl_data * int_to_float P (uint segs),
                   condition := condition pl_data - {PL_COND_FLAG_INVERSE_TIME}\<rparr>
      else pl_data)"

text \<open>
  Lines 101, 102 and 139 to 170: centre, increments per segment and the small-angle
  values. \<^verbatim>\<open>2.0\<close>, \<^verbatim>\<open>0.16666667\<close>, \<^verbatim>\<open>4.0\<close> and \<^verbatim>\<open>0.5\<close> are \<^verbatim>\<open>double\<close> literals.
\<close>

definition arc_setup ::
  "('f::{plus,minus,times,inverse}, 'd::{plus,minus,times}) platform
    \<Rightarrow> 'f list \<Rightarrow> 'f list \<Rightarrow> 'f list \<Rightarrow> nat \<Rightarrow> nat \<Rightarrow> nat \<Rightarrow> 'f \<Rightarrow> 16 word \<Rightarrow> 'f arc_locals" where
  "arc_setup P target position offset axis_0 axis_1 axis_linear angular_travel segs =
     (let theta = angular_travel / int_to_float P (uint segs);
          linear = (target ! axis_linear - position ! axis_linear) / int_to_float P (uint segs);
          cos_T0 = to_float P (dconst P 2 - to_double P (theta * theta));
          sin_T1 = to_float P (to_double P theta * dconst P (16666667 / 100000000)
                               * (to_double P cos_T0 + dconst P 4));
          cos_T1 = to_float P (to_double P cos_T0 * dconst P (1 / 2))
      in \<lparr>arc_offset = offset, arc_axis_0 = axis_0, arc_axis_1 = axis_1,
          arc_axis_linear = axis_linear,
          center_axis0 = position ! axis_0 + offset ! axis_0,
          center_axis1 = position ! axis_1 + offset ! axis_1,
          segments = unat segs,
          theta_per_segment = theta, linear_per_segment = linear,
          sin_T = sin_T1, cos_T = cos_T1\<rparr>)"

text \<open>
  \<^verbatim>\<open>mc_arc\<close>. The arrays \<^verbatim>\<open>target\<close>, \<^verbatim>\<open>position\<close> and \<^verbatim>\<open>offset\<close> are distinct objects and the
  axes are valid indices into them. \<^verbatim>\<open>pl_data\<close> and \<^verbatim>\<open>position\<close> are written through the
  caller's pointers: the result carries the descriptor and the position array as the
  caller finds them after the call.
\<close>

definition mc_arc ::
  "('f::{plus,minus,times,uminus,inverse}, 'd::{plus,minus,times,uminus,inverse,ord}) platform
    \<Rightarrow> 'f list \<Rightarrow> 'f plan_line_data_t \<Rightarrow> 'f list \<Rightarrow> 'f list \<Rightarrow> 'f \<Rightarrow> nat \<Rightarrow> nat \<Rightarrow> nat \<Rightarrow> bool
    \<Rightarrow> 'f machine \<Rightarrow> ('f machine \<times> 'f plan_line_data_t \<times> 'f list) option" where
  "mc_arc P target pl_data position offset radius axis_0 axis_1 axis_linear is_clockwise_arc m =
     (let angular_travel =
            arc_angular_travel P target position offset axis_0 axis_1 is_clockwise_arc;
          segs = arc_segments P (settings_arc_tolerance m) angular_travel radius
      in if segs \<noteq> 0 then
           (let pl_data' = arc_feed_adjust P segs pl_data;
                L = arc_setup P target position offset axis_0 axis_1 axis_linear
                      angular_travel segs
            in case mc_arc_loop P L pl_data' 1 0 (- (offset ! axis_0)) (- (offset ! axis_1))
                      position m of
                 None \<Rightarrow> None
               | Some (bailed, position', m') \<Rightarrow>
                   if bailed then Some (m', pl_data', position')
                   else (case mc_line P target pl_data' m' of
                           None \<Rightarrow> None
                         | Some m'' \<Rightarrow> Some (m'', pl_data', position')))
         else
           (case mc_line P target pl_data m of
              None \<Rightarrow> None
            | Some m' \<Rightarrow> Some (m', pl_data, position)))"

subsection \<open>An instance of the platform\<close>

text \<open>
  Arithmetic carried out exactly in the reals (rounding ignored), the two-argument
  arctangent with values in \<open>(-\<pi>, \<pi>]\<close>, and example values for the constants:
  \<open>\<epsilon> = 10\<^sup>-\<^sup>6\<close> (spec 4.4), a correction every 12 segments, a ring of 16 blocks, travel
  limited to 1000 mm on either side, 20 polls per second of dwell.
\<close>

definition atan2_exact :: "real \<Rightarrow> real \<Rightarrow> real" where
  "atan2_exact y x =
     (if 0 < x then arctan (y / x)
      else if x < 0 then (if 0 \<le> y then arctan (y / x) + pi else arctan (y / x) - pi)
      else if 0 < y then pi / 2
      else if y < 0 then - pi / 2
      else 0)"

definition exact_platform :: "(real, real) platform" where
  "exact_platform =
     \<lparr>to_double = (\<lambda>x. x), to_float = (\<lambda>x. x), dconst = of_rat, int_to_float = of_int,
      atan2f = atan2_exact, sqrtf = sqrt, cosf = cos, sinf = sin,
      fabs = abs, floor_double = (\<lambda>x. of_int \<lfloor>x\<rfloor>), to_uint16 = (\<lambda>x. word_of_int \<lfloor>x\<rfloor>),
      ARC_ANGULAR_TRAVEL_EPSILON = 1 / 1000000, N_ARC_CORRECTION = 12,
      BLOCK_BUFFER_SIZE = 16, MESSAGE_PROBE_COORDINATES = False,
      soft_limit_exceeded = list_ex (\<lambda>x. 1000 < \<bar>x\<bar>),
      dwell_polls = (\<lambda>s. nat \<lceil>20 * s\<rceil>)\<rparr>"

subsection \<open>Reading the log and the event list\<close>

text \<open>
  The log only grows, so a projection of the log that is the same before and after a call
  says that the call issued no command of that kind.
\<close>

fun submissions :: "'f command list \<Rightarrow> ('f list \<times> 'f plan_line_data_t) list" where
  "submissions [] = []"
| "submissions (Planner_submit target pl_data # cs) = (target, pl_data) # submissions cs"
| "submissions (c # cs) = submissions cs"

fun spindle_writes :: "'f command list \<Rightarrow> (pl_cond_flag \<times> 'f) list" where
  "spindle_writes [] = []"
| "spindle_writes (Spindle_write dir rpm # cs) = (dir, rpm) # spindle_writes cs"
| "spindle_writes (c # cs) = spindle_writes cs"

text \<open>Commands to the planner, the stepper, the spindle and the coolant.\<close>

fun is_device_command :: "'f command \<Rightarrow> bool" where
  "is_device_command (Alarm_raised a) = False"
| "is_device_command (Alarm_emitted a) = False"
| "is_device_command (Dwell_delay s) = False"
| "is_device_command Probe_report = False"
| "is_device_command c = True"

definition device_commands :: "'f command list \<Rightarrow> 'f command list" where
  "device_commands cs = filter is_device_command cs"

definition devices_untouched :: "'f machine \<Rightarrow> 'f machine \<Rightarrow> bool" where
  "devices_untouched m m' =
     (plan_queue m' = plan_queue m \<and> plan_position m' = plan_position m
      \<and> device_commands (commands m') = device_commands (commands m))"

text \<open>No pending event switches the machine into the check mode.\<close>

definition check_free :: "'f rt_event list list \<Rightarrow> bool" where
  "check_free evss = list_all (list_all (\<lambda>e. e \<noteq> Rt_State STATE_CHECK_MODE)) evss"

text \<open>
  What polling the hook leaves alone: the log only grows, it submits nothing, writes no spindle speed,
  changes neither the settings nor the planner position nor the probe polarity nor the
  probe history; an abort stays, a switched-off probe monitor stays off, an empty planner
  ring stays empty.
\<close>

definition rt_frame :: "'f machine \<Rightarrow> 'f machine \<Rightarrow> bool" where
  "rt_frame m m' =
     ((\<exists>cs. commands m' = commands m @ cs)
      \<and> submissions (commands m') = submissions (commands m)
      \<and> spindle_writes (commands m') = spindle_writes (commands m)
      \<and> settings_flags m' = settings_flags m
      \<and> settings_arc_tolerance m' = settings_arc_tolerance m
      \<and> plan_position m' = plan_position m
      \<and> probe_invert_mask m' = probe_invert_mask m
      \<and> sys_probe_succeeded m' = sys_probe_succeeded m
      \<and> (sys_abort m \<longrightarrow> sys_abort m')
      \<and> (sys_probe_state m = PROBE_OFF \<longrightarrow> sys_probe_state m' = PROBE_OFF)
      \<and> (plan_queue m = [] \<longrightarrow> plan_queue m' = []))"

text \<open>
  The machine is not in the check mode and no pending event puts it there.
\<close>

definition no_check :: "'f machine \<Rightarrow> bool" where
  "no_check m = (sys_state m \<noteq> STATE_CHECK_MODE \<and> check_free (pending m))"

text \<open>What a sequence of polls preserves.\<close>

definition rt_step :: "'f machine \<Rightarrow> 'f machine \<Rightarrow> bool" where
  "rt_step m m' = (rt_frame m m' \<and> (no_check m \<longrightarrow> no_check m'))"

text \<open>
  The interpolated points that the loop of \<^verbatim>\<open>mc_arc\<close> writes into the position array
  from iteration \<open>i\<close> on, in order: the loop body without the submission.
\<close>

function arc_points ::
  "('f::{plus,minus,times,uminus}, 'd) platform \<Rightarrow> 'f arc_locals
    \<Rightarrow> nat \<Rightarrow> nat \<Rightarrow> 'f \<Rightarrow> 'f \<Rightarrow> 'f list \<Rightarrow> 'f list list" where
  "arc_points P L i count r_axis0 r_axis1 position =
     (if i < segments L then
        (case arc_rotate P L i count r_axis0 r_axis1 of
           (count', r_axis0', r_axis1') \<Rightarrow>
             (let position' = arc_advance L r_axis0' r_axis1' position
              in position' # arc_points P L (i + 1) count' r_axis0' r_axis1' position'))
      else [])"
  by pat_completeness auto
termination
  by (relation "measure (\<lambda>(P, L, i, count, r_axis0, r_axis1, position). segments L - i)") auto

subsection \<open>A concrete machine\<close>

text \<open>
  The starting point of the scenarios of the spec (section 8): state IDLE, planner empty,
  soft limits off, arc tolerance 0.002 mm, tool at the origin; floats read as reals.
\<close>

definition idle_machine :: "real machine" where
  "idle_machine =
     \<lparr>sys_state = STATE_IDLE, sys_abort = False, sys_step_control = {},
      sys_probe_succeeded = False, sys_rt_exec_state = {}, sys_rt_exec_alarm = None,
      sys_probe_state = PROBE_OFF, sys_position = [0, 0, 0], sys_probe_position = [0, 0, 0],
      settings_flags = {}, settings_arc_tolerance = 2 / 1000,
      probe_pin = False, probe_invert_mask = False,
      plan_queue = [], plan_position = [0, 0, 0], commands = [], pending = []\<rparr>"

(*PROPERTIES*)
section \<open>Properties\<close>

subsection \<open>Reset\<close>

lemma mc_reset_noop: "EXEC_RESET \<in> sys_rt_exec_state m \<Longrightarrow> mc_reset m = m"
  by (simp add: mc_reset_def)

lemma mc_reset_sets_flag: "EXEC_RESET \<in> sys_rt_exec_state (mc_reset m)"
  by (simp add: mc_reset_def Let_def system_set_exec_state_flag_def spindle_stop_def
      coolant_stop_def system_set_exec_alarm_def st_go_idle_def)

text \<open>
  Claim C8. \<^verbatim>\<open>mc_reset\<close> is idempotent. A call that finds \<^verbatim>\<open>EXEC_RESET\<close> set does
  nothing at all, and a call always leaves the flag set; so a second call in a row changes
  nothing, and in particular issues no command. The commands of a first call are: spindle
  stop, coolant stop and, only in a motion state, at most one alarm
  (\<^verbatim>\<open>HOMING_FAIL_RESET\<close> when homing with no alarm pending, none when homing with an alarm
  pending, \<^verbatim>\<open>ABORT_CYCLE\<close> in the other motion states) followed by the stepper kill.
\<close>

theorem mc_reset_idempotent:
  "(EXEC_RESET \<in> sys_rt_exec_state m \<longrightarrow> mc_reset m = m)
   \<and> mc_reset (mc_reset m) = mc_reset m
   \<and> (EXEC_RESET \<notin> sys_rt_exec_state m \<longrightarrow>
        commands (mc_reset m) =
          commands m @ [Spindle_off, Coolant_off]
          @ (if sys_state m \<in> {STATE_CYCLE, STATE_HOMING, STATE_JOG}
                \<or> sys_step_control m \<inter> {STEP_CONTROL_EXECUTE_HOLD, STEP_CONTROL_EXECUTE_SYS_MOTION} \<noteq> {}
             then (if sys_state m = STATE_HOMING
                   then (if sys_rt_exec_alarm m = None
                         then [Alarm_raised EXEC_ALARM_HOMING_FAIL_RESET] else [])
                   else [Alarm_raised EXEC_ALARM_ABORT_CYCLE])
                  @ [Stepper_go_idle]
             else []))"
proof (intro conjI impI)
  show "mc_reset m = m" if "EXEC_RESET \<in> sys_rt_exec_state m"
    using that by (rule mc_reset_noop)
  show "mc_reset (mc_reset m) = mc_reset m"
    by (rule mc_reset_noop) (rule mc_reset_sets_flag)
  show "commands (mc_reset m) =
          commands m @ [Spindle_off, Coolant_off]
          @ (if sys_state m \<in> {STATE_CYCLE, STATE_HOMING, STATE_JOG}
                \<or> sys_step_control m \<inter> {STEP_CONTROL_EXECUTE_HOLD, STEP_CONTROL_EXECUTE_SYS_MOTION} \<noteq> {}
             then (if sys_state m = STATE_HOMING
                   then (if sys_rt_exec_alarm m = None
                         then [Alarm_raised EXEC_ALARM_HOMING_FAIL_RESET] else [])
                   else [Alarm_raised EXEC_ALARM_ABORT_CYCLE])
                  @ [Stepper_go_idle]
             else [])"
    if "EXEC_RESET \<notin> sys_rt_exec_state m"
    using that
    by (auto simp: mc_reset_def Let_def system_set_exec_state_flag_def spindle_stop_def
        coolant_stop_def system_set_exec_alarm_def st_go_idle_def)
qed

theorem mc_reset_idempotent_witness:
  "EXEC_RESET \<notin> sys_rt_exec_state (idle_machine\<lparr>sys_state := STATE_CYCLE\<rparr>)
   \<and> commands (mc_reset (idle_machine\<lparr>sys_state := STATE_CYCLE\<rparr>)) =
       [Spindle_off, Coolant_off, Alarm_raised EXEC_ALARM_ABORT_CYCLE, Stepper_go_idle]
   \<and> EXEC_RESET \<in> sys_rt_exec_state (mc_reset (idle_machine\<lparr>sys_state := STATE_CYCLE\<rparr>))
   \<and> mc_reset (mc_reset (idle_machine\<lparr>sys_state := STATE_CYCLE\<rparr>)) =
       mc_reset (idle_machine\<lparr>sys_state := STATE_CYCLE\<rparr>)"
  using mc_reset_idempotent [of "idle_machine\<lparr>sys_state := STATE_CYCLE\<rparr>"]
    mc_reset_idempotent [of "mc_reset (idle_machine\<lparr>sys_state := STATE_CYCLE\<rparr>)"]
  by (simp add: idle_machine_def mc_reset_sets_flag)

end
